theory Spec2Isabelle
  imports Complex_Main
begin

section \<open>Data model\<close>

text \<open>
  The recommender of \<^verbatim>\<open>movie-logic.js\<close> and of the Express server works on plain
  JavaScript objects. A finite JavaScript number is a real number. The functions that
  compute with numbers are given twice. The first form uses exact real arithmetic: it
  gives the values of the code wherever no operation of the code rounds, as in the
  scenario of the specification. The second form, further down, applies a rounding
  function to the result of every operation, and that of binary64 is defined there. The
  one place where the code can meet \<^verbatim>\<open>NaN\<close> (the mean of an empty array, the
  identifier computed for an empty table) is modelled by an explicit value.

  One entry of a user's rating vector is the object \<^verbatim>\<open>{ movieId, rating }\<close> built by
  \<^verbatim>\<open>formatRatingsData\<close>.
\<close>

record movie_rating =
  movieId :: nat
  rating :: real

section \<open>Similarity (\<^verbatim>\<open>calculateSimilarity\<close>)\<close>

text \<open>
  \<^verbatim>\<open>_.meanBy(xs, r => r.rating)\<close> of lodash: the sum of the ratings divided by the
  length of the array, and \<^verbatim>\<open>NaN\<close> (here \<open>None\<close>) for an empty array.
\<close>

definition meanBy :: "movie_rating list \<Rightarrow> real option" where
  "meanBy xs =
     (if length xs = 0 then None
      else Some (sum_list (map rating xs) / real (length xs)))"

text \<open>
  \<^verbatim>\<open>_.intersectionBy(user1Ratings, user2Ratings, 'movieId')\<close> of lodash walks the first
  array and keeps an element when its \<^verbatim>\<open>movieId\<close> has not been kept before and occurs
  among the \<^verbatim>\<open>movieId\<close>s of the second array. The elements kept are objects of the
  first array; the second array only contributes its keys. \<open>seen\<close> is the cache of
  keys already kept, \<open>others\<close> the keys of the second array. (lodash leaves its loop
  once it has kept as many elements as the shorter array has; from then on every
  further element would be refused by one of the two tests anyway.)
\<close>

fun baseIntersection :: "nat list \<Rightarrow> movie_rating list \<Rightarrow> nat list \<Rightarrow> movie_rating list" where
  "baseIntersection seen [] others = []"
| "baseIntersection seen (x # xs) others =
     (if movieId x \<notin> set seen \<and> movieId x \<in> set others
      then x # baseIntersection (movieId x # seen) xs others
      else baseIntersection seen xs others)"

definition intersectionBy :: "movie_rating list \<Rightarrow> movie_rating list \<Rightarrow> movie_rating list" where
  "intersectionBy user1Ratings user2Ratings =
     baseIntersection [] user1Ratings (map movieId user2Ratings)"

text \<open>
  The three accumulators of \<^verbatim>\<open>calculateSimilarity\<close> and the body of its
  \<^verbatim>\<open>commonMovies.forEach\<close> loop. The loop variable \<^verbatim>\<open>movie\<close> is an element of
  \<^verbatim>\<open>commonMovies\<close>, and \<^verbatim>\<open>movie.rating\<close> is read for both factors.
\<close>

record pearson_sums =
  numerator :: real
  sum1 :: real
  sum2 :: real

definition accumulate :: "real \<Rightarrow> real \<Rightarrow> movie_rating \<Rightarrow> pearson_sums \<Rightarrow> pearson_sums" where
  "accumulate avg1 avg2 movie acc =
     \<lparr> numerator = numerator acc + (rating movie - avg1) * (rating movie - avg2),
       sum1 = sum1 acc + (rating movie - avg1)\<^sup>2,
       sum2 = sum2 acc + (rating movie - avg2)\<^sup>2 \<rparr>"

text \<open>
  \<^verbatim>\<open>calculateSimilarity(user1Ratings, user2Ratings)\<close>. When one of the vectors is
  empty its mean is \<^verbatim>\<open>NaN\<close>, but then \<^verbatim>\<open>commonMovies\<close> is empty as well
  (lemma \<open>intersectionBy_empty\<close> below), the loop body never runs, both sums stay
  \<open>0\<close> and the function returns \<open>0\<close>: that is the last case.
\<close>

definition calculateSimilarity :: "movie_rating list \<Rightarrow> movie_rating list \<Rightarrow> real" where
  "calculateSimilarity user1Ratings user2Ratings =
     (case (meanBy user1Ratings, meanBy user2Ratings) of
        (Some avg1, Some avg2) \<Rightarrow>
          (let commonMovies = intersectionBy user1Ratings user2Ratings;
               acc = fold (accumulate avg1 avg2) commonMovies
                       \<lparr> numerator = 0, sum1 = 0, sum2 = 0 \<rparr>
           in if sum1 acc * sum2 acc = 0 then 0
              else numerator acc / sqrt (sum1 acc * sum2 acc))
      | _ \<Rightarrow> 0)"

text \<open>
  The similarity as the specification words it (section 4.1, steps 1 to 5): for each
  item rated by both users, \<open>ratingA\<close> is user A's rating of that item and \<open>ratingB\<close>
  is user B's rating of that item. \<open>ratingOf v i\<close> is the rating a vector gives to
  item \<open>i\<close>, \<open>commonItems\<close> the items rated by both.
\<close>

definition ratingOf :: "movie_rating list \<Rightarrow> nat \<Rightarrow> real" where
  "ratingOf v i = (case find (\<lambda>r. movieId r = i) v of Some r \<Rightarrow> rating r | None \<Rightarrow> 0)"

definition commonItems :: "movie_rating list \<Rightarrow> movie_rating list \<Rightarrow> nat list" where
  "commonItems a b = filter (\<lambda>i. i \<in> set (map movieId b)) (remdups (map movieId a))"

definition similarity_spec :: "movie_rating list \<Rightarrow> movie_rating list \<Rightarrow> real" where
  "similarity_spec a b =
     (case (meanBy a, meanBy b) of
        (Some avgA, Some avgB) \<Rightarrow>
          (let items = commonItems a b;
               num = (\<Sum>i\<leftarrow>items. (ratingOf a i - avgA) * (ratingOf b i - avgB));
               sumSqA = (\<Sum>i\<leftarrow>items. (ratingOf a i - avgA)\<^sup>2);
               sumSqB = (\<Sum>i\<leftarrow>items. (ratingOf b i - avgB)\<^sup>2)
           in if sumSqA * sumSqB = 0 then 0 else num / sqrt (sumSqA * sumSqB))
      | _ \<Rightarrow> 0)"

section \<open>Neighbourhood (\<^verbatim>\<open>findNearestNeighbors\<close>)\<close>

text \<open>
  \<^verbatim>\<open>ratingsData\<close> is a JavaScript object keyed by user id. Its property keys are
  strings: \<open>Idx n\<close> stands for the canonical decimal string of the non-negative
  integer \<open>n\<close> (user ids are positive integers), \<open>KNaN\<close> for the string
  \<^verbatim>\<open>"NaN"\<close>, the only other key the code can create. The table is the list
  \<^verbatim>\<open>Object.entries(ratingsData)\<close>: integer keys in ascending order, then string keys
  in insertion order.

  The \<^verbatim>\<open>userId\<close> argument of \<^verbatim>\<open>findNearestNeighbors\<close> is an untyped JavaScript
  value: a number (\<open>NumId\<close>, \<open>NaNId\<close>) or a string (\<open>StrId\<close>).
\<close>

datatype pkey = Idx nat | KNaN

datatype js_id = NumId nat | NaNId | StrId pkey

type_synonym ratings_table = "(pkey \<times> movie_rating list) list"

text \<open>The template literal \<^verbatim>\<open>`${userId}`\<close>, also the key a value is converted to when it
  indexes an object.\<close>

fun toKey :: "js_id \<Rightarrow> pkey" where
  "toKey (NumId n) = Idx n"
| "toKey NaNId = KNaN"
| "toKey (StrId s) = s"

text \<open>\<^verbatim>\<open>user2Id !== userId\<close> where \<^verbatim>\<open>user2Id\<close> is a key delivered by
  \<^verbatim>\<open>Object.entries\<close>, hence a string: strict inequality holds whenever the other
  operand is not a string, and compares the strings otherwise.\<close>

fun strictNotEqual :: "pkey \<Rightarrow> js_id \<Rightarrow> bool" where
  "strictNotEqual user2Id (StrId s) = (user2Id \<noteq> s)"
| "strictNotEqual user2Id (NumId n) = True"
| "strictNotEqual user2Id NaNId = True"

text \<open>\<^verbatim>\<open>ratingsData[key]\<close>: the value stored under the key, \<^verbatim>\<open>undefined\<close> (\<open>None\<close>)
  when there is none.\<close>

definition getProp :: "ratings_table \<Rightarrow> pkey \<Rightarrow> movie_rating list option" where
  "getProp ratingsData key = map_of ratingsData key"

text \<open>An \<^verbatim>\<open>undefined\<close> first argument of \<^verbatim>\<open>calculateSimilarity\<close> is treated by
  \<^verbatim>\<open>_.meanBy\<close> and \<^verbatim>\<open>_.intersectionBy\<close> as an empty array.\<close>

definition arrayOrEmpty :: "movie_rating list option \<Rightarrow> movie_rating list" where
  "arrayOrEmpty v = (case v of None \<Rightarrow> [] | Some xs \<Rightarrow> xs)"

record neighbor =
  userId :: pkey
  similarity :: real
  ratings :: "movie_rating list"

text \<open>\<^verbatim>\<open>xs.sort((a, b) => key(b) - key(a))\<close>: a stable sort into descending order of a
  numeric key.\<close>

definition sortDescBy :: "('a \<Rightarrow> real) \<Rightarrow> 'a list \<Rightarrow> 'a list" where
  "sortDescBy key xs = sort_key (\<lambda>x. - key x) xs"

definition findNearestNeighbors :: "js_id \<Rightarrow> ratings_table \<Rightarrow> nat \<Rightarrow> neighbor list" where
  "findNearestNeighbors targetId ratingsData k =
     (let similarities =
            [ \<lparr> userId = user2Id,
                similarity = calculateSimilarity
                               (arrayOrEmpty (getProp ratingsData (toKey targetId))) rs,
                ratings = rs \<rparr>.
              (user2Id, rs) \<leftarrow> ratingsData, strictNotEqual user2Id targetId ]
      in take k (sortDescBy similarity similarities))"

section \<open>Prediction (\<^verbatim>\<open>predictRating\<close>)\<close>

text \<open>
  \<^verbatim>\<open>predictRating\<close> returns either the string made by \<^verbatim>\<open>toFixed(1)\<close> or the number
  \<open>1\<close>. \<open>FixedStr n\<close> is the decimal string with one fractional digit whose value is
  \<open>n / 10\<close>. \<open>toNumber\<close> is the numeric value JavaScript gives both when they are
  subtracted in a comparator.
\<close>

datatype predicted = FixedStr int | Num real

fun toNumber :: "predicted \<Rightarrow> real" where
  "toNumber (FixedStr n) = real_of_int n / 10"
| "toNumber (Num x) = x"

text \<open>\<^verbatim>\<open>x.toFixed(1)\<close>: the integer \<open>n\<close> for which \<open>n / 10\<close> is closest to \<open>x\<close>, the larger
  one of two equally close; a negative \<open>x\<close> is formatted as the sign followed by the
  digits of \<open>- x\<close>.\<close>

definition toFixed1 :: "real \<Rightarrow> int" where
  "toFixed1 x = (if x < 0 then - \<lfloor>(- x) * 10 + 1 / 2\<rfloor> else \<lfloor>x * 10 + 1 / 2\<rfloor>)"

record weighted_sums =
  weightedSum :: real
  similaritySum :: real

text \<open>The body of \<^verbatim>\<open>neighbors.forEach\<close>: \<^verbatim>\<open>find\<close> returns the first rating of the
  neighbour for the movie, or \<^verbatim>\<open>undefined\<close>.\<close>

definition addNeighbor :: "nat \<Rightarrow> neighbor \<Rightarrow> weighted_sums \<Rightarrow> weighted_sums" where
  "addNeighbor targetMovie nb acc =
     (case find (\<lambda>r. movieId r = targetMovie) (ratings nb) of
        Some neighborRating \<Rightarrow>
          \<lparr> weightedSum = weightedSum acc + rating neighborRating * similarity nb,
            similaritySum = similaritySum acc + similarity nb \<rparr>
      | None \<Rightarrow> acc)"

definition predictRating :: "nat \<Rightarrow> neighbor list \<Rightarrow> predicted" where
  "predictRating targetMovie neighbors =
     (let acc = fold (addNeighbor targetMovie) neighbors
                  \<lparr> weightedSum = 0, similaritySum = 0 \<rparr>
      in if similaritySum acc > 0
         then FixedStr (toFixed1 (weightedSum acc / similaritySum acc))
         else Num 1)"

text \<open>
  The vocabulary of the specification (section 4.3): the neighbours that contribute to a
  prediction are those whose vector holds a rating of the item; each contributes that
  rating and its similarity.
\<close>

definition contributions :: "nat \<Rightarrow> neighbor list \<Rightarrow> (real \<times> real) list" where
  "contributions targetMovie neighbors =
     [ (ratingOf (ratings nb) targetMovie, similarity nb).
       nb \<leftarrow> neighbors, targetMovie \<in> movieId ` set (ratings nb) ]"



text \<open>A value \<open>v\<close> is \<open>x\<close> rounded to one decimal place: a whole number of tenths, at most
  half a tenth away from \<open>x\<close>.\<close>

definition roundedToOneDecimal :: "real \<Rightarrow> real \<Rightarrow> bool" where
  "roundedToOneDecimal x v \<longleftrightarrow> (\<exists>n::int. v = real_of_int n / 10) \<and> \<bar>v - x\<bar> \<le> 1 / 20"

section \<open>Orchestration (\<^verbatim>\<open>main\<close> and \<^verbatim>\<open>POST /postUserRatings\<close>)\<close>

text \<open>
  The catalogue \<^verbatim>\<open>movies\<close> is the list \<^verbatim>\<open>Object.entries(movies)\<close>; its keys are the
  decimal strings of movie ids and \<^verbatim>\<open>+key\<close> is the number, so a key is modelled by
  that number.
\<close>

record movie_meta =
  title :: string
  genres :: string

type_synonym catalog = "(nat \<times> movie_meta) list"

record predicted_movie =
  pm_movieId :: nat
  pm_title :: string
  pm_genres :: string
  predictedRating :: predicted

text \<open>\<^verbatim>\<open>parseInt(key)\<close>: the number of an integer key, \<^verbatim>\<open>NaN\<close> (\<open>None\<close>) for
  \<^verbatim>\<open>"NaN"\<close>.\<close>

fun parseInt :: "pkey \<Rightarrow> nat option" where
  "parseInt (Idx n) = Some n"
| "parseInt KNaN = None"

text \<open>
  \<^verbatim>\<open>_.maxBy(keys, parseInt)\<close> of lodash: the first key whose number is greatest, keys
  whose number is \<^verbatim>\<open>NaN\<close> being skipped; \<^verbatim>\<open>undefined\<close> (\<open>None\<close>) when no key is left.
  The accumulator is the best key so far together with its number.
\<close>

definition maxByStep :: "pkey \<Rightarrow> (pkey \<times> nat) option \<Rightarrow> (pkey \<times> nat) option" where
  "maxByStep key best =
     (case parseInt key of
        None \<Rightarrow> best
      | Some current \<Rightarrow>
          (case best of
             None \<Rightarrow> Some (key, current)
           | Some (_, computed) \<Rightarrow> if current > computed then Some (key, current) else best))"

definition maxByParseInt :: "pkey list \<Rightarrow> pkey option" where
  "maxByParseInt keys = map_option fst (fold maxByStep keys None)"

text \<open>\<^verbatim>\<open>+_.maxBy(Object.keys(ratingsData), parseInt) + 1\<close>: unary plus turns the key
  into its number (\<^verbatim>\<open>undefined\<close> and \<^verbatim>\<open>"NaN"\<close> into \<^verbatim>\<open>NaN\<close>), and
  \<^verbatim>\<open>NaN + 1\<close> is \<^verbatim>\<open>NaN\<close>.\<close>

definition newUserId :: "ratings_table \<Rightarrow> js_id" where
  "newUserId ratingsData =
     (case maxByParseInt (map fst ratingsData) of
        Some (Idx n) \<Rightarrow> NumId (n + 1)
      | Some KNaN \<Rightarrow> NaNId
      | None \<Rightarrow> NaNId)"

text \<open>
  The assignment \<^verbatim>\<open>ratingsData[key] = value\<close>: an existing property keeps its place
  and gets the new value; a new integer key is placed in ascending order among the
  integer keys, before any string key; a new string key goes last.
\<close>

fun setProp :: "ratings_table \<Rightarrow> pkey \<Rightarrow> movie_rating list \<Rightarrow> ratings_table" where
  "setProp [] key v = [(key, v)]"
| "setProp ((k, w) # rest) key v =
     (if k = key then (k, v) # rest
      else if key \<notin> fst ` set rest \<and>
              (case (key, k) of (Idx n, Idx m) \<Rightarrow> n < m | (Idx n, KNaN) \<Rightarrow> True | _ \<Rightarrow> False)
      then (key, v) # (k, w) # rest
      else (k, w) # setProp rest key v)"

text \<open>
  The steps that the handler of \<^verbatim>\<open>POST /postUserRatings\<close> (lines 222 to 244) and
  \<^verbatim>\<open>main\<close> of \<^verbatim>\<open>movie-logic.js\<close> (lines 202 to 224) share word for word:
  register the new user, find the neighbours, predict every movie the user has not
  rated, sort and cut to ten. The result is the list of recommendations and the table
  as the assignment leaves it. The ratings are numbers, as the server receives them in
  a JSON body; \<^verbatim>\<open>main\<close> passes on what was typed at its prompt.
\<close>

definition recommend ::
  "movie_rating list \<Rightarrow> ratings_table \<Rightarrow> catalog \<Rightarrow> nat \<Rightarrow> predicted_movie list \<times> ratings_table" where
  "recommend userRatings ratingsData movies k =
     (let newId = newUserId ratingsData;
          ratingsData' = setProp ratingsData (toKey newId) userRatings;
          neighbors = findNearestNeighbors newId ratingsData' k;
          unratedMovies =
            filter (\<lambda>(key, v). \<not> list_ex (\<lambda>r. movieId r = key) userRatings) movies;
          predictedMovies =
            map (\<lambda>(key, v). \<lparr> pm_movieId = key, pm_title = title v, pm_genres = genres v,
                              predictedRating = predictRating key neighbors \<rparr>) unratedMovies;
          topRecommendations = take 10 (sortDescBy (\<lambda>m. toNumber (predictedRating m)) predictedMovies)
      in (topRecommendations, ratingsData'))"

text \<open>
  The state of the server process: the two module variables \<^verbatim>\<open>ratingsData\<close> and
  \<^verbatim>\<open>movies\<close>, and the constant \<^verbatim>\<open>k\<close> (10 in both files).
\<close>

record server_state =
  ratingsData :: ratings_table
  movies :: catalog
  k :: nat

datatype response = Status400 string | Json "predicted_movie list"

text \<open>The handler of \<^verbatim>\<open>POST /postUserRatings\<close>: the request body is the new user's
  rating sequence; the result is the response sent and the state left behind.\<close>

definition postUserRatings :: "movie_rating list \<Rightarrow> server_state \<Rightarrow> response \<times> server_state" where
  "postUserRatings userRatings st =
     (if length userRatings = 0 then (Status400 ''No ratings provided'', st)
      else (let (topRecommendations, ratingsData') =
                  recommend userRatings (ratingsData st) (movies st) (k st)
            in (Json topRecommendations, st\<lparr> ratingsData := ratingsData' \<rparr>)))"

text \<open>
  The vocabulary of the specification (section 4.4 and section 8): a list of
  recommendations is valid for a new user when it holds no movie the user has rated,
  has at most ten entries and is in non-increasing order of predicted rating.
\<close>

definition validRecommendations :: "movie_rating list \<Rightarrow> predicted_movie list \<Rightarrow> bool" where
  "validRecommendations userRatings recs \<longleftrightarrow>
     (\<forall>m \<in> set recs. pm_movieId m \<notin> movieId ` set userRatings)
     \<and> length recs \<le> 10
     \<and> sorted_wrt (\<lambda>a b. toNumber (predictedRating b) \<le> toNumber (predictedRating a)) recs"

section \<open>Binary64 arithmetic\<close>

text \<open>
  JavaScript numbers are IEEE 754 binary64 values, and every arithmetic operation of the
  code returns the exact result rounded to the nearest double, a tie going to the even
  significand. \<open>binary64\<close> is that rounding on the reals: 53 significant bits, with
  the spacing of the subnormal numbers below \<open>twoTo (- 1022)\<close>, where \<open>twoTo e\<close> is
  the power of two with the integer exponent \<open>e\<close>. A result beyond the largest double,
  which the code turns into \<^verbatim>\<open>Infinity\<close>, is outside the model.
\<close>

definition twoTo :: "int \<Rightarrow> real" where
  "twoTo e = (if 0 \<le> e then 2 ^ nat e else 1 / 2 ^ nat (- e))"

text \<open>The nearest integer, the even one of two equally near.\<close>

definition roundTiesToEven :: "real \<Rightarrow> int" where
  "roundTiesToEven x =
     (let n = \<lfloor>x\<rfloor>; r = x - of_int n
      in if r < 1 / 2 then n else if 1 / 2 < r then n + 1 else if even n then n else n + 1)"

definition binary64 :: "real \<Rightarrow> real" where
  "binary64 x =
     (let e = max \<lfloor>log 2 \<bar>x\<bar>\<rfloor> (- 1022) - 52
      in of_int (roundTiesToEven (x / twoTo e)) * twoTo e)"

section \<open>The numeric functions with every operation rounded\<close>

text \<open>
  The same code as \<open>meanBy\<close>, \<open>accumulate\<close>, \<open>calculateSimilarity\<close>,
  \<open>addNeighbor\<close> and \<open>predictRating\<close> above, with the rounding \<open>fl\<close> applied to
  the result of every operation, in the order in which the code performs them. With
  \<open>fl = binary64\<close> this is the code as it runs; with the identity it is the exact form
  (lemmas \<open>calculateSimilarityFl_exact\<close> and \<open>predictRatingFl_exact\<close>).

  lodash adds the ratings from left to right, starting from the first, and divides the
  sum by the length.
\<close>

definition meanByFl :: "(real \<Rightarrow> real) \<Rightarrow> movie_rating list \<Rightarrow> real option" where
  "meanByFl fl xs =
     (case xs of
        [] \<Rightarrow> None
      | x # rest \<Rightarrow>
          Some (fl (foldl (\<lambda>result r. fl (result + rating r)) (rating x) rest / real (length xs))))"

text \<open>\<^verbatim>\<open>Math.pow(d, 2)\<close> is the rounded square of \<open>d\<close>.\<close>

definition accumulateFl ::
  "(real \<Rightarrow> real) \<Rightarrow> real \<Rightarrow> real \<Rightarrow> movie_rating \<Rightarrow> pearson_sums \<Rightarrow> pearson_sums" where
  "accumulateFl fl avg1 avg2 movie acc =
     \<lparr> numerator = fl (numerator acc + fl (fl (rating movie - avg1) * fl (rating movie - avg2))),
       sum1 = fl (sum1 acc + fl (fl (rating movie - avg1) * fl (rating movie - avg1))),
       sum2 = fl (sum2 acc + fl (fl (rating movie - avg2) * fl (rating movie - avg2))) \<rparr>"

text \<open>\<^verbatim>\<open>Math.sqrt\<close> is the rounded square root; the product \<^verbatim>\<open>sum1 * sum2\<close> is
  computed, and rounded, before it is compared with zero and before its root is taken.\<close>

definition calculateSimilarityFl ::
  "(real \<Rightarrow> real) \<Rightarrow> movie_rating list \<Rightarrow> movie_rating list \<Rightarrow> real" where
  "calculateSimilarityFl fl user1Ratings user2Ratings =
     (case (meanByFl fl user1Ratings, meanByFl fl user2Ratings) of
        (Some avg1, Some avg2) \<Rightarrow>
          (let commonMovies = intersectionBy user1Ratings user2Ratings;
               acc = fold (accumulateFl fl avg1 avg2) commonMovies
                       \<lparr> numerator = 0, sum1 = 0, sum2 = 0 \<rparr>
           in if fl (sum1 acc * sum2 acc) = 0 then 0
              else fl (numerator acc / fl (sqrt (fl (sum1 acc * sum2 acc)))))
      | _ \<Rightarrow> 0)"

definition addNeighborFl ::
  "(real \<Rightarrow> real) \<Rightarrow> nat \<Rightarrow> neighbor \<Rightarrow> weighted_sums \<Rightarrow> weighted_sums" where
  "addNeighborFl fl targetMovie nb acc =
     (case find (\<lambda>r. movieId r = targetMovie) (ratings nb) of
        Some neighborRating \<Rightarrow>
          \<lparr> weightedSum = fl (weightedSum acc + fl (rating neighborRating * similarity nb)),
            similaritySum = fl (similaritySum acc + similarity nb) \<rparr>
      | None \<Rightarrow> acc)"

definition predictRatingFl :: "(real \<Rightarrow> real) \<Rightarrow> nat \<Rightarrow> neighbor list \<Rightarrow> predicted" where
  "predictRatingFl fl targetMovie neighbors =
     (let acc = fold (addNeighborFl fl targetMovie) neighbors
                  \<lparr> weightedSum = 0, similaritySum = 0 \<rparr>
      in if similaritySum acc > 0
         then FixedStr (toFixed1 (fl (weightedSum acc / similaritySum acc)))
         else Num 1)"

text \<open>
  The two sums of the specification (section 4.3) as the code accumulates them: over the
  contributing neighbours in their order, each addition and each product rounded.
\<close>

definition weightedSumFl :: "(real \<Rightarrow> real) \<Rightarrow> nat \<Rightarrow> neighbor list \<Rightarrow> real" where
  "weightedSumFl fl targetMovie neighbors =
     foldl (\<lambda>acc (r, s). fl (acc + fl (r * s))) 0 (contributions targetMovie neighbors)"

definition similaritySumFl :: "(real \<Rightarrow> real) \<Rightarrow> nat \<Rightarrow> neighbor list \<Rightarrow> real" where
  "similaritySumFl fl targetMovie neighbors =
     foldl (\<lambda>acc (r, s). fl (acc + s)) 0 (contributions targetMovie neighbors)"

section \<open>Concrete data\<close>

text \<open>
  The end-to-end scenario of the specification (section 8): three users in the table, a
  new user who rates the movies 10 and 20 with 5 and 3. \<open>scenarioTable\<close> is the table
  after the new user has been registered.
\<close>

definition scenarioCorpus :: ratings_table where
  "scenarioCorpus =
     [(Idx 1, [\<lparr>movieId = 10, rating = 5\<rparr>, \<lparr>movieId = 20, rating = 3\<rparr>]),
      (Idx 2, [\<lparr>movieId = 10, rating = 5\<rparr>, \<lparr>movieId = 20, rating = 3\<rparr>, \<lparr>movieId = 30, rating = 4\<rparr>]),
      (Idx 3, [\<lparr>movieId = 10, rating = 1\<rparr>, \<lparr>movieId = 20, rating = 1\<rparr>])]"

definition scenarioRatings :: "movie_rating list" where
  "scenarioRatings = [\<lparr>movieId = 10, rating = 5\<rparr>, \<lparr>movieId = 20, rating = 3\<rparr>]"

definition scenarioTable :: ratings_table where
  "scenarioTable = setProp scenarioCorpus (toKey (newUserId scenarioCorpus)) scenarioRatings"

text \<open>A catalogue of four movies and a server state over it, for the same scenario.\<close>

definition scenarioCatalog :: catalog where
  "scenarioCatalog =
     [(10, \<lparr>title = ''Heat'', genres = ''Action|Crime''\<rparr>),
      (20, \<lparr>title = ''Money Train'', genres = ''Action|Comedy''\<rparr>),
      (30, \<lparr>title = ''Get Shorty'', genres = ''Comedy|Crime''\<rparr>),
      (40, \<lparr>title = ''Richard III'', genres = ''Drama|War''\<rparr>)]"

definition scenarioState :: server_state where
  "scenarioState = \<lparr> ratingsData = scenarioCorpus, movies = scenarioCatalog, k = 10 \<rparr>"



text \<open>
  A target vector and a second vector in two orders of its ratings, the ratings being the
  doubles that the literals 2.6, 1.8, 4.6 and 1.4 denote; and ten neighbours with
  similarity \<open>1\<close>, nine of whom rate movie 30 with 1.5 and one with 1.
\<close>

definition orderTarget :: "movie_rating list" where
  "orderTarget = [\<lparr>movieId = 20, rating = binary64 2.6\<rparr>, \<lparr>movieId = 60, rating = 1\<rparr>]"

definition orderB :: "movie_rating list" where
  "orderB = [\<lparr>movieId = 20, rating = binary64 1.8\<rparr>, \<lparr>movieId = 40, rating = binary64 4.6\<rparr>,
             \<lparr>movieId = 50, rating = binary64 1.4\<rparr>]"

definition orderB' :: "movie_rating list" where
  "orderB' = [\<lparr>movieId = 20, rating = binary64 1.8\<rparr>, \<lparr>movieId = 40, rating = binary64 1.4\<rparr>,
              \<lparr>movieId = 50, rating = binary64 4.6\<rparr>]"

definition tenNeighbors :: "neighbor list" where
  "tenNeighbors =
     replicate 9 \<lparr>userId = Idx 1, similarity = 1, ratings = [\<lparr>movieId = 30, rating = 3 / 2\<rparr>]\<rparr>
     @ [\<lparr>userId = Idx 2, similarity = 1, ratings = [\<lparr>movieId = 30, rating = 1\<rparr>]\<rparr>]"

section \<open>Properties of the similarity\<close>

lemma baseIntersection_empty_others: "baseIntersection seen xs [] = []"
  by (induction xs arbitrary: seen) simp_all

lemma intersectionBy_empty:
  "intersectionBy [] b = []" "intersectionBy a [] = []"
  by (simp_all add: intersectionBy_def baseIntersection_empty_others)

lemma baseIntersection_cong_set:
  "set o1 = set o2 \<Longrightarrow> baseIntersection seen xs o1 = baseIntersection seen xs o2"
  by (induction xs arbitrary: seen) simp_all

lemmas sim_eval = calculateSimilarity_def meanBy_def intersectionBy_def accumulate_def Let_def

subsection \<open>The loop reads the first user's rating twice\<close>

text \<open>
  Claim C1. The specification accumulates, for each common item, the product of user
  A's deviation and user B's deviation, with \<open>ratingB\<close> user B's rating of the item.
  The code reads \<^verbatim>\<open>movie.rating\<close> for both factors, and \<^verbatim>\<open>movie\<close> comes from
  \<^verbatim>\<open>commonMovies\<close>, whose elements are user A's objects. For A rating the items 10
  and 20 with 5 and 3 and B rating them with 3 and 5 (both means are 4), the code
  returns \<open>1\<close> where the formula of the specification gives \<open>- 1\<close>.
\<close>

theorem similarity_reads_first_rating_twice:
  "calculateSimilarity
     [\<lparr>movieId = 10, rating = 5\<rparr>, \<lparr>movieId = 20, rating = 3\<rparr>]
     [\<lparr>movieId = 10, rating = 3\<rparr>, \<lparr>movieId = 20, rating = 5\<rparr>] = 1
   \<and> similarity_spec
     [\<lparr>movieId = 10, rating = 5\<rparr>, \<lparr>movieId = 20, rating = 3\<rparr>]
     [\<lparr>movieId = 10, rating = 3\<rparr>, \<lparr>movieId = 20, rating = 5\<rparr>] = - 1"
  by (simp add: sim_eval similarity_spec_def commonItems_def ratingOf_def)

subsection \<open>Symmetry\<close>

text \<open>
  Claim C3. The similarity is said to be symmetric. For a rating the items 10 and 20
  with 5 and 3 and b rating both with 1, the code returns \<open>2 / sqrt 40\<close> for
  \<open>(a, b)\<close> and \<open>0\<close> for \<open>(b, a)\<close>: the sums are taken over the first argument's
  ratings only, so exchanging the arguments changes them.
\<close>

theorem similarity_not_symmetric:
  "calculateSimilarity
     [\<lparr>movieId = 10, rating = 5\<rparr>, \<lparr>movieId = 20, rating = 3\<rparr>]
     [\<lparr>movieId = 10, rating = 1\<rparr>, \<lparr>movieId = 20, rating = 1\<rparr>] = 2 / sqrt 40
   \<and> calculateSimilarity
     [\<lparr>movieId = 10, rating = 1\<rparr>, \<lparr>movieId = 20, rating = 1\<rparr>]
     [\<lparr>movieId = 10, rating = 5\<rparr>, \<lparr>movieId = 20, rating = 3\<rparr>] = 0
   \<and> calculateSimilarity
     [\<lparr>movieId = 10, rating = 5\<rparr>, \<lparr>movieId = 20, rating = 3\<rparr>]
     [\<lparr>movieId = 10, rating = 1\<rparr>, \<lparr>movieId = 20, rating = 1\<rparr>] \<noteq>
     calculateSimilarity
     [\<lparr>movieId = 10, rating = 1\<rparr>, \<lparr>movieId = 20, rating = 1\<rparr>]
     [\<lparr>movieId = 10, rating = 5\<rparr>, \<lparr>movieId = 20, rating = 3\<rparr>]"
  by (simp add: sim_eval)

subsection \<open>Range\<close>

text \<open>
  In exact arithmetic the numerator is a sum of products \<open>x * y\<close> and the two other
  accumulators are the sums of the squares \<open>x\<^sup>2\<close> and \<open>y\<^sup>2\<close> of the same factors, so
  the Cauchy-Schwarz inequality, kept as an invariant of the loop, bounds the quotient
  by \<open>1\<close>. The bound is a fact about the exact form only: the rounded operations of
  the code can take the quotient above \<open>1\<close>, as the section on the rounded functions
  shows.
\<close>

lemma cs_step:
  fixes n s1 s2 x y :: real
  assumes n: "n\<^sup>2 \<le> s1 * s2" and s1: "0 \<le> s1" and s2: "0 \<le> s2"
  shows "(n + x * y)\<^sup>2 \<le> (s1 + x\<^sup>2) * (s2 + y\<^sup>2)"
proof -
  have nn: "0 \<le> s1 * y\<^sup>2 + s2 * x\<^sup>2" using s1 s2 by simp
  have "(2 * n * x * y)\<^sup>2 = 4 * n\<^sup>2 * (x\<^sup>2 * y\<^sup>2)" by (simp add: power2_eq_square)
  also have "\<dots> \<le> 4 * (s1 * s2) * (x\<^sup>2 * y\<^sup>2)"
    using n by (intro mult_right_mono mult_left_mono) simp_all
  also have "\<dots> \<le> (s1 * y\<^sup>2 + s2 * x\<^sup>2)\<^sup>2"
  proof -
    have "0 \<le> (s1 * y\<^sup>2 - s2 * x\<^sup>2)\<^sup>2" by simp
    then show ?thesis by (simp add: power2_eq_square algebra_simps)
  qed
  finally have "2 * n * x * y \<le> s1 * y\<^sup>2 + s2 * x\<^sup>2"
    using nn by (rule power2_le_imp_le)
  moreover have "(n + x * y)\<^sup>2 = n\<^sup>2 + 2 * n * x * y + x\<^sup>2 * y\<^sup>2"
    by (simp add: power2_eq_square algebra_simps)
  moreover have "(s1 + x\<^sup>2) * (s2 + y\<^sup>2) = s1 * s2 + (s1 * y\<^sup>2 + s2 * x\<^sup>2) + x\<^sup>2 * y\<^sup>2"
    by (simp add: algebra_simps)
  ultimately show ?thesis using n by linarith
qed

lemma accumulate_bounded:
  assumes "(numerator acc)\<^sup>2 \<le> sum1 acc * sum2 acc" "0 \<le> sum1 acc" "0 \<le> sum2 acc"
  shows "(numerator (accumulate avg1 avg2 m acc))\<^sup>2
           \<le> sum1 (accumulate avg1 avg2 m acc) * sum2 (accumulate avg1 avg2 m acc)
         \<and> 0 \<le> sum1 (accumulate avg1 avg2 m acc) \<and> 0 \<le> sum2 (accumulate avg1 avg2 m acc)"
  using assms by (simp add: accumulate_def cs_step)

lemma fold_accumulate_bounded:
  assumes "(numerator acc)\<^sup>2 \<le> sum1 acc * sum2 acc" "0 \<le> sum1 acc" "0 \<le> sum2 acc"
  shows "(numerator (fold (accumulate avg1 avg2) ms acc))\<^sup>2
           \<le> sum1 (fold (accumulate avg1 avg2) ms acc) * sum2 (fold (accumulate avg1 avg2) ms acc)
         \<and> 0 \<le> sum1 (fold (accumulate avg1 avg2) ms acc)
         \<and> 0 \<le> sum2 (fold (accumulate avg1 avg2) ms acc)"
  using assms
proof (induction ms arbitrary: acc)
  case Nil
  then show ?case by simp
next
  case (Cons m ms)
  from accumulate_bounded [OF Cons.prems, of avg1 avg2 m]
  show ?case by (simp add: Cons.IH)
qed

lemma quotient_bounded:
  fixes n d :: real
  assumes "n\<^sup>2 \<le> d" "d \<noteq> 0"
  shows "\<bar>n / sqrt d\<bar> \<le> 1"
proof -
  have "0 \<le> n\<^sup>2" by simp
  with assms have d: "0 < d" by linarith
  have "\<bar>n\<bar> \<le> sqrt d" using assms(1) by (simp add: real_le_rsqrt)
  moreover have "0 < sqrt d" using d by simp
  ultimately show ?thesis by simp
qed

lemma exact_similarity_bounded:
  "- 1 \<le> calculateSimilarity a b \<and> calculateSimilarity a b \<le> 1"
proof -
  have "\<bar>calculateSimilarity a b\<bar> \<le> 1"
  proof (cases "meanBy a")
    case None
    then show ?thesis by (simp add: calculateSimilarity_def)
  next
    case avg_a: (Some avg1)
    show ?thesis
    proof (cases "meanBy b")
      case None
      then show ?thesis using avg_a by (simp add: calculateSimilarity_def)
    next
      case avg_b: (Some avg2)
      define acc where
        "acc = fold (accumulate avg1 avg2) (intersectionBy a b)
                 \<lparr> numerator = 0, sum1 = 0, sum2 = 0 \<rparr>"
      have "(numerator acc)\<^sup>2 \<le> sum1 acc * sum2 acc"
        unfolding acc_def using fold_accumulate_bounded [of "\<lparr> numerator = 0, sum1 = 0, sum2 = 0 \<rparr>"]
        by simp
      then have "sum1 acc * sum2 acc \<noteq> 0 \<Longrightarrow> \<bar>numerator acc / sqrt (sum1 acc * sum2 acc)\<bar> \<le> 1"
        by (rule quotient_bounded)
      then show ?thesis using avg_a avg_b
        by (simp add: calculateSimilarity_def Let_def acc_def[symmetric])
    qed
  qed
  then show ?thesis by linarith
qed

section \<open>Properties of the neighbourhood\<close>

subsection \<open>Sorting and cutting\<close>

lemma sortDescBy_sorted: "sorted_wrt (\<lambda>a b. key b \<le> key a) (sortDescBy key xs)"
proof -
  have "sorted (map (\<lambda>x. - key x) (sort_key (\<lambda>x. - key x) xs))" by (rule sorted_sort_key)
  then show ?thesis by (simp add: sortDescBy_def sorted_map)
qed

lemma sortDescBy_set [simp]: "set (sortDescBy key xs) = set xs"
  by (simp add: sortDescBy_def)

lemma sortDescBy_length [simp]: "length (sortDescBy key xs) = length xs"
  by (simp add: sortDescBy_def)

lemma findNearestNeighbors_length: "length (findNearestNeighbors t tbl kn) \<le> kn"
  by (simp add: findNearestNeighbors_def Let_def)

lemma findNearestNeighbors_sorted:
  "sorted_wrt (\<lambda>a b. similarity b \<le> similarity a) (findNearestNeighbors t tbl kn)"
  by (simp add: findNearestNeighbors_def Let_def sorted_wrt_take sortDescBy_sorted)

subsection \<open>Which users are skipped\<close>

text \<open>
  The users of the result are users of the table that passed the test
  \<^verbatim>\<open>user2Id !== userId\<close>. When the target is given as a string the target's own
  entry is skipped. When it is given as a number no entry is skipped, and a table that
  fits within \<open>k\<close> comes back whole, the target's entry included.
\<close>

lemma candidates_userIds:
  "map userId [ \<lparr> userId = u, similarity = f rs, ratings = rs \<rparr>. (u, rs) \<leftarrow> tbl, strictNotEqual u t ]
     = map fst (filter (\<lambda>(u, rs). strictNotEqual u t) tbl)"
  by (induction tbl) auto

lemma findNearestNeighbors_userIds:
  "userId ` set (findNearestNeighbors t tbl kn)
     \<subseteq> fst ` {(u, rs). (u, rs) \<in> set tbl \<and> strictNotEqual u t}"
proof -
  let ?cands = "[ \<lparr> userId = u, similarity = calculateSimilarity
                  (arrayOrEmpty (getProp tbl (toKey t))) rs, ratings = rs \<rparr>.
                  (u, rs) \<leftarrow> tbl, strictNotEqual u t ]"
  have "set (findNearestNeighbors t tbl kn) \<subseteq> set ?cands"
    unfolding findNearestNeighbors_def Let_def
    using set_take_subset [of kn "sortDescBy similarity ?cands"] by simp
  then have "userId ` set (findNearestNeighbors t tbl kn) \<subseteq> set (map userId ?cands)"
    by auto
  also have "\<dots> = set (map fst (filter (\<lambda>(u, rs). strictNotEqual u t) tbl))"
    by (simp only: candidates_userIds)
  also have "\<dots> \<subseteq> fst ` {(u, rs). (u, rs) \<in> set tbl \<and> strictNotEqual u t}"
    by auto
  finally show ?thesis .
qed

lemma findNearestNeighbors_string_target:
  "key \<notin> userId ` set (findNearestNeighbors (StrId key) tbl kn)"
  using findNearestNeighbors_userIds [of "StrId key" tbl kn] by auto

lemma findNearestNeighbors_number_target:
  assumes "length tbl \<le> kn"
  shows "userId ` set (findNearestNeighbors (NumId n) tbl kn) = fst ` set tbl"
proof -
  let ?cands = "[ \<lparr> userId = u, similarity = calculateSimilarity
                  (arrayOrEmpty (getProp tbl (toKey (NumId n)))) rs, ratings = rs \<rparr>.
                  (u, rs) \<leftarrow> tbl, strictNotEqual u (NumId n) ]"
  have all: "filter (\<lambda>(u, rs). strictNotEqual u (NumId n)) tbl = tbl"
    by (induction tbl) auto
  have ids: "map userId ?cands = map fst tbl"
    by (simp only: candidates_userIds all)
  have "length (map userId ?cands) = length (map fst tbl)"
    by (simp only: ids)
  then have "length ?cands = length tbl"
    by (simp only: length_map)
  then have "findNearestNeighbors (NumId n) tbl kn = sortDescBy similarity ?cands"
    unfolding findNearestNeighbors_def Let_def using assms by simp
  then have "userId ` set (findNearestNeighbors (NumId n) tbl kn) = set (map userId ?cands)"
    by (simp only: sortDescBy_set set_map)
  then show ?thesis by (simp only: ids set_map)
qed

subsection \<open>The scenario\<close>

text \<open>
  The new user of the scenario gets the number 4, and the table keeps its order with
  the new entry last. The new user's similarity is \<open>1\<close> to the users 1 and 2 and to
  itself, and \<open>2 / sqrt 40\<close> to user 3.
\<close>

lemma scenario_newUserId: "newUserId scenarioCorpus = NumId 4"
  by (simp add: newUserId_def maxByParseInt_def maxByStep_def scenarioCorpus_def)

lemma scenarioTable_eq: "scenarioTable = scenarioCorpus @ [(Idx 4, scenarioRatings)]"
  by (simp add: scenarioTable_def scenario_newUserId) (simp add: scenarioCorpus_def)

lemma sqrt40_gt: "2 / sqrt 40 < 1"
proof -
  have "sqrt 4 < sqrt 40" by (rule real_sqrt_less_mono) simp
  then have "2 < sqrt 40" by simp
  then show ?thesis by simp
qed

lemma scenario_candidates:
  "[ \<lparr> userId = u, similarity = calculateSimilarity
        (arrayOrEmpty (getProp scenarioTable (toKey (NumId 4)))) rs, ratings = rs \<rparr>.
     (u, rs) \<leftarrow> scenarioTable, strictNotEqual u (NumId 4) ] =
   [ \<lparr> userId = Idx 1, similarity = 1,
       ratings = [\<lparr>movieId = 10, rating = 5\<rparr>, \<lparr>movieId = 20, rating = 3\<rparr>] \<rparr>,
     \<lparr> userId = Idx 2, similarity = 1,
       ratings = [\<lparr>movieId = 10, rating = 5\<rparr>, \<lparr>movieId = 20, rating = 3\<rparr>, \<lparr>movieId = 30, rating = 4\<rparr>] \<rparr>,
     \<lparr> userId = Idx 3, similarity = 2 / sqrt 40,
       ratings = [\<lparr>movieId = 10, rating = 1\<rparr>, \<lparr>movieId = 20, rating = 1\<rparr>] \<rparr>,
     \<lparr> userId = Idx 4, similarity = 1,
       ratings = [\<lparr>movieId = 10, rating = 5\<rparr>, \<lparr>movieId = 20, rating = 3\<rparr>] \<rparr> ]"
  by (simp add: scenarioTable_eq scenarioCorpus_def scenarioRatings_def getProp_def
        arrayOrEmpty_def sim_eval)

lemma scenario_neighbors:
  "findNearestNeighbors (NumId 4) scenarioTable 2 =
   [ \<lparr> userId = Idx 1, similarity = 1,
       ratings = [\<lparr>movieId = 10, rating = 5\<rparr>, \<lparr>movieId = 20, rating = 3\<rparr>] \<rparr>,
     \<lparr> userId = Idx 2, similarity = 1,
       ratings = [\<lparr>movieId = 10, rating = 5\<rparr>, \<lparr>movieId = 20, rating = 3\<rparr>, \<lparr>movieId = 30, rating = 4\<rparr>] \<rparr> ]"
  unfolding findNearestNeighbors_def Let_def scenario_candidates
  using sqrt40_gt by (simp add: sortDescBy_def)

lemma scenario_neighbors_all:
  "findNearestNeighbors (NumId 4) scenarioTable 10 =
   [ \<lparr> userId = Idx 1, similarity = 1,
       ratings = [\<lparr>movieId = 10, rating = 5\<rparr>, \<lparr>movieId = 20, rating = 3\<rparr>] \<rparr>,
     \<lparr> userId = Idx 2, similarity = 1,
       ratings = [\<lparr>movieId = 10, rating = 5\<rparr>, \<lparr>movieId = 20, rating = 3\<rparr>, \<lparr>movieId = 30, rating = 4\<rparr>] \<rparr>,
     \<lparr> userId = Idx 4, similarity = 1,
       ratings = [\<lparr>movieId = 10, rating = 5\<rparr>, \<lparr>movieId = 20, rating = 3\<rparr>] \<rparr>,
     \<lparr> userId = Idx 3, similarity = 2 / sqrt 40,
       ratings = [\<lparr>movieId = 10, rating = 1\<rparr>, \<lparr>movieId = 20, rating = 1\<rparr>] \<rparr> ]"
  unfolding findNearestNeighbors_def Let_def scenario_candidates
  using sqrt40_gt by (simp add: sortDescBy_def)

text \<open>
  Claim C2. For a target user present in the table and a positive \<open>k\<close>, the result of
  \<^verbatim>\<open>findNearestNeighbors\<close> is said to hold no record of the target user, besides
  having at most \<open>k\<close> records in non-increasing order of similarity (lemmas
  \<open>findNearestNeighbors_length\<close> and \<open>findNearestNeighbors_sorted\<close>). Both callers
  pass the number \<^verbatim>\<open>newUserId\<close>, while the keys compared with it are strings, so
  the comment \<^verbatim>\<open>// Skip the target user\<close> is not honoured: in the scenario, with
  \<open>k = 10\<close> as in the source, the new user 4 is the third of its own neighbours.
\<close>

theorem target_user_among_neighbors:
  "newUserId scenarioCorpus = NumId 4
   \<and> getProp scenarioTable (Idx 4) = Some scenarioRatings
   \<and> map userId (findNearestNeighbors (newUserId scenarioCorpus) scenarioTable 10)
       = [Idx 1, Idx 2, Idx 4, Idx 3]"
  by (simp add: scenario_newUserId scenario_neighbors_all)
     (simp add: scenarioTable_eq scenarioCorpus_def getProp_def)

text \<open>
  Claim C8, as stated: in the scenario with \<open>k = 2\<close>, user 2 is the top neighbour and
  the predicted rating of movie 30 is 4.0. The first neighbour returned is user 1, so
  the conjunction fails.
\<close>

theorem scenario_top_neighbor_is_user_1:
  "\<not> (map userId (take 1 (findNearestNeighbors (newUserId scenarioCorpus) scenarioTable 2)) = [Idx 2]
      \<and> predictRating 30 (findNearestNeighbors (newUserId scenarioCorpus) scenarioTable 2) = FixedStr 40)"
proof -
  have "predictRating 30 (findNearestNeighbors (NumId 4) scenarioTable 2) = FixedStr 40"
    unfolding scenario_neighbors by (simp add: predictRating_def addNeighbor_def toFixed1_def)
  then show ?thesis by (simp add: scenario_newUserId scenario_neighbors)
qed

text \<open>
  Claim C8, amended. In the scenario with \<open>k = 2\<close> the neighbours returned are user 1
  and then user 2, both with similarity \<open>1\<close> (user 1 has the new user's ratings too, and
  the stable sort keeps the order of the table among equals), and the predicted rating
  of movie 30 is the string 4.0.
\<close>

theorem scenario_neighbors_and_prediction:
  "scenarioTable = scenarioCorpus @ [(Idx 4, scenarioRatings)]
   \<and> map userId (findNearestNeighbors (newUserId scenarioCorpus) scenarioTable 2) = [Idx 1, Idx 2]
   \<and> map similarity (findNearestNeighbors (newUserId scenarioCorpus) scenarioTable 2) = [1, 1]
   \<and> predictRating 30 (findNearestNeighbors (newUserId scenarioCorpus) scenarioTable 2) = FixedStr 40
   \<and> toNumber (FixedStr 40) = 4"
proof -
  have "predictRating 30 (findNearestNeighbors (NumId 4) scenarioTable 2) = FixedStr 40"
    unfolding scenario_neighbors by (simp add: predictRating_def addNeighbor_def toFixed1_def)
  then have "map userId (findNearestNeighbors (newUserId scenarioCorpus) scenarioTable 2) = [Idx 1, Idx 2]
   \<and> map similarity (findNearestNeighbors (newUserId scenarioCorpus) scenarioTable 2) = [1, 1]
   \<and> predictRating 30 (findNearestNeighbors (newUserId scenarioCorpus) scenarioTable 2) = FixedStr 40
   \<and> toNumber (FixedStr 40) = 4"
    by (simp add: scenario_newUserId scenario_neighbors)
  with scenarioTable_eq show ?thesis by (rule conjI)
qed

section \<open>Properties of the prediction\<close>

subsection \<open>The loop computes the two sums of the specification\<close>

lemma find_movie_Some:
  "find (\<lambda>r. movieId r = m) xs = Some r \<Longrightarrow> m \<in> movieId ` set xs \<and> ratingOf xs m = rating r"
  by (induction xs) (auto simp: ratingOf_def split: if_splits)

lemma find_movie_None:
  "find (\<lambda>r. movieId r = m) xs = None \<Longrightarrow> m \<notin> movieId ` set xs"
  by (auto simp: find_None_iff)





subsection \<open>Rounding to one decimal\<close>

lemma toFixed1_near: "\<bar>real_of_int (toFixed1 x) / 10 - x\<bar> \<le> 1 / 20"
proof -
  have "real_of_int (toFixed1 x) / 10 - x \<le> 1 / 20 \<and> - (real_of_int (toFixed1 x) / 10 - x) \<le> 1 / 20"
  proof (cases "x < 0")
    case True
    define n where "n = \<lfloor>(- x) * 10 + 1 / 2\<rfloor>"
    have "real_of_int n \<le> (- x) * 10 + 1 / 2" "(- x) * 10 + 1 / 2 < real_of_int n + 1"
      unfolding n_def by linarith+
    moreover have "real_of_int (toFixed1 x) = - real_of_int n"
      using True by (simp add: toFixed1_def n_def)
    ultimately show ?thesis by linarith
  next
    case False
    define n where "n = \<lfloor>x * 10 + 1 / 2\<rfloor>"
    have "real_of_int n \<le> x * 10 + 1 / 2" "x * 10 + 1 / 2 < real_of_int n + 1"
      unfolding n_def by linarith+
    moreover have "real_of_int (toFixed1 x) = real_of_int n"
      using False by (simp add: toFixed1_def n_def)
    ultimately show ?thesis by linarith
  qed
  then show ?thesis by (simp only: abs_le_iff)
qed

lemma toFixed1_rounds: "roundedToOneDecimal x (real_of_int (toFixed1 x) / 10)"
  unfolding roundedToOneDecimal_def using toFixed1_near by blast



lemma contributions_unrated:
  "filter (\<lambda>nb. m \<in> movieId ` set (ratings nb)) nbs = [] \<Longrightarrow> contributions m nbs = []"
  by (induction nbs) (auto simp: contributions_def split: if_splits)



subsection \<open>Bounds\<close>







section \<open>Properties of the orchestration\<close>

lemma recommend_valid: "validRecommendations ur (fst (recommend ur tbl cat kn))"
proof -
  define nbs where
    "nbs = findNearestNeighbors (newUserId tbl) (setProp tbl (toKey (newUserId tbl)) ur) kn"
  define unrated where
    "unrated = filter (\<lambda>(key, v). \<not> list_ex (\<lambda>r. movieId r = key) ur) cat"
  define predicted where
    "predicted = map (\<lambda>(key, v). \<lparr> pm_movieId = key, pm_title = title v, pm_genres = genres v,
                              predictedRating = predictRating key nbs \<rparr>) unrated"
  have recs: "fst (recommend ur tbl cat kn) =
      take 10 (sortDescBy (\<lambda>m. toNumber (predictedRating m)) predicted)"
    by (simp add: recommend_def Let_def predicted_def unrated_def nbs_def)
  have "pm_movieId p \<notin> movieId ` set ur" if "p \<in> set predicted" for p
    using that by (auto simp: predicted_def unrated_def list_ex_iff)
  moreover have "set (take 10 (sortDescBy (\<lambda>m. toNumber (predictedRating m)) predicted))
      \<subseteq> set predicted"
    using set_take_subset [of 10 "sortDescBy (\<lambda>m. toNumber (predictedRating m)) predicted"]
    by simp
  ultimately have "\<forall>p \<in> set (fst (recommend ur tbl cat kn)). pm_movieId p \<notin> movieId ` set ur"
    unfolding recs by blast
  moreover have "length (fst (recommend ur tbl cat kn)) \<le> 10"
    unfolding recs by simp
  moreover have "sorted_wrt (\<lambda>a b. toNumber (predictedRating b) \<le> toNumber (predictedRating a))
      (fst (recommend ur tbl cat kn))"
    unfolding recs by (intro sorted_wrt_take sortDescBy_sorted)
  ultimately show ?thesis by (simp add: validRecommendations_def)
qed

lemma scenario_recommend:
  "recommend scenarioRatings scenarioCorpus scenarioCatalog 10 =
     ([\<lparr>pm_movieId = 30, pm_title = ''Get Shorty'', pm_genres = ''Comedy|Crime'',
         predictedRating = FixedStr 40\<rparr>,
       \<lparr>pm_movieId = 40, pm_title = ''Richard III'', pm_genres = ''Drama|War'',
         predictedRating = Num 1\<rparr>],
      scenarioTable)"
proof -
  have p30: "predictRating 30 (findNearestNeighbors (NumId 4) scenarioTable 10) = FixedStr 40"
    unfolding scenario_neighbors_all by (simp add: predictRating_def addNeighbor_def toFixed1_def)
  have p40: "predictRating 40 (findNearestNeighbors (NumId 4) scenarioTable 10) = Num 1"
    unfolding scenario_neighbors_all by (simp add: predictRating_def addNeighbor_def)
  have tbl: "setProp scenarioCorpus (toKey (newUserId scenarioCorpus)) scenarioRatings = scenarioTable"
    by (simp only: scenarioTable_def)
  show ?thesis
    unfolding recommend_def Let_def tbl
    unfolding scenario_newUserId
    by (simp add: scenarioCatalog_def scenarioRatings_def p30 p40 sortDescBy_def)
qed

lemma scenario_post:
  "postUserRatings scenarioRatings scenarioState =
     (Json [\<lparr>pm_movieId = 30, pm_title = ''Get Shorty'', pm_genres = ''Comedy|Crime'',
         predictedRating = FixedStr 40\<rparr>,
       \<lparr>pm_movieId = 40, pm_title = ''Richard III'', pm_genres = ''Drama|War'',
         predictedRating = Num 1\<rparr>],
      scenarioState\<lparr> ratingsData := scenarioTable \<rparr>)"
  by (simp add: postUserRatings_def scenarioState_def scenario_recommend) (simp add: scenarioRatings_def)

text \<open>
  Claim C7. For every new-user rating sequence, table and catalogue, the list of
  recommendations holds no movie of the new user's own vector, has at most ten entries
  and is in non-increasing order of predicted rating: for the list the handler of
  \<^verbatim>\<open>POST /postUserRatings\<close> answers with, and for the list the shared steps compute
  from any table, catalogue and \<open>k\<close>.
\<close>

theorem recommendations_valid:
  "(\<forall>recs st'. postUserRatings ur st = (Json recs, st') \<longrightarrow> validRecommendations ur recs)
   \<and> validRecommendations ur (fst (recommend ur tbl cat kn))"
proof (intro conjI allI impI)
  fix recs st'
  assume "postUserRatings ur st = (Json recs, st')"
  then have "recs = fst (recommend ur (ratingsData st) (movies st) (k st))"
    by (auto simp: postUserRatings_def split: if_splits prod.splits)
  then show "validRecommendations ur recs" by (simp only: recommend_valid)
next
  show "validRecommendations ur (fst (recommend ur tbl cat kn))" by (rule recommend_valid)
qed

theorem recommendations_valid_witness:
  "postUserRatings scenarioRatings scenarioState =
     (Json [\<lparr>pm_movieId = 30, pm_title = ''Get Shorty'', pm_genres = ''Comedy|Crime'',
         predictedRating = FixedStr 40\<rparr>,
       \<lparr>pm_movieId = 40, pm_title = ''Richard III'', pm_genres = ''Drama|War'',
         predictedRating = Num 1\<rparr>],
      scenarioState\<lparr> ratingsData := scenarioTable \<rparr>)
   \<and> validRecommendations scenarioRatings
       [\<lparr>pm_movieId = 30, pm_title = ''Get Shorty'', pm_genres = ''Comedy|Crime'',
         predictedRating = FixedStr 40\<rparr>,
       \<lparr>pm_movieId = 40, pm_title = ''Richard III'', pm_genres = ''Drama|War'',
         predictedRating = Num 1\<rparr>]
   \<and> validRecommendations scenarioRatings
       (fst (recommend scenarioRatings scenarioCorpus scenarioCatalog 10))"
  using recommendations_valid [of scenarioRatings scenarioState scenarioCorpus scenarioCatalog 10]
    scenario_post by blast

text \<open>
  Claim C9. When the new user's rating sequence is empty the handler answers with
  status 400 and the message \<^verbatim>\<open>No ratings provided\<close>; it answers so for an empty
  sequence only, and whenever it does, the state, hence the ratings table, is left as it
  was.
\<close>

theorem empty_ratings_rejected:
  "fst (postUserRatings [] st) = Status400 ''No ratings provided''
   \<and> (\<forall>ur msg. fst (postUserRatings ur st) = Status400 msg \<longrightarrow>
        ur = [] \<and> snd (postUserRatings ur st) = st)"
  by (auto simp: postUserRatings_def split: if_splits prod.splits)

theorem empty_ratings_rejected_witness:
  "fst (postUserRatings [] scenarioState) = Status400 ''No ratings provided''
   \<and> snd (postUserRatings [] scenarioState) = scenarioState
   \<and> ratingsData (snd (postUserRatings [] scenarioState)) = scenarioCorpus"
proof -
  from empty_ratings_rejected [of scenarioState]
  have r: "fst (postUserRatings [] scenarioState) = Status400 ''No ratings provided''"
    and "fst (postUserRatings [] scenarioState) = Status400 ''No ratings provided'' \<longrightarrow>
      snd (postUserRatings [] scenarioState) = scenarioState"
    by blast+
  then have "snd (postUserRatings [] scenarioState) = scenarioState" by blast
  with r show ?thesis by (simp add: scenarioState_def)
qed

section \<open>Properties of the rounding\<close>

text \<open>
  Within one binade the doubles are the multiples of a fixed power of two, which is how
  a concrete rounding is evaluated: \<open>binary64_eq\<close> for a number whose binade is known,
  \<open>binary64_sqrt\<close> for a square root enclosed between two squares.
\<close>

lemma twoTo_powr: "twoTo e = 2 powr (of_int e)"
  by (cases "0 \<le> e") (simp_all add: twoTo_def powr_realpow[symmetric] powr_minus divide_inverse)

lemma twoTo_pos: "0 < twoTo e"
  by (simp add: twoTo_powr)

lemma floor_log2:
  assumes "twoTo j \<le> \<bar>x\<bar>" "\<bar>x\<bar> < twoTo (j + 1)"
  shows "\<lfloor>log 2 \<bar>x\<bar>\<rfloor> = j"
proof -
  have pos: "0 < \<bar>x\<bar>" using assms(1) twoTo_pos [of j] by linarith
  have "of_int j \<le> log 2 \<bar>x\<bar>"
    using assms(1) pos by (simp add: twoTo_powr le_log_iff)
  moreover have "log 2 \<bar>x\<bar> < of_int j + 1"
    using assms(2) pos by (simp add: twoTo_powr log_less_iff)
  ultimately show ?thesis by linarith
qed

lemma binary64_eq:
  assumes "twoTo j \<le> \<bar>x\<bar>" "\<bar>x\<bar> < twoTo (j + 1)" "- 1022 \<le> j"
  shows "binary64 x = of_int (roundTiesToEven (x / twoTo (j - 52))) * twoTo (j - 52)"
  using assms(3) by (simp add: binary64_def floor_log2 [OF assms(1,2)] max_def Let_def)

lemma roundTiesToEven_eqI:
  assumes "\<bar>y - of_int m\<bar> < 1 / 2"
  shows "roundTiesToEven y = m"
proof -
  have lo: "of_int m - 1 / 2 < y" and hi: "y < of_int m + 1 / 2" using assms by linarith+
  show ?thesis
  proof (cases "of_int m \<le> y")
    case True
    then have "\<lfloor>y\<rfloor> = m" using hi by linarith
    then show ?thesis using hi by (simp add: roundTiesToEven_def Let_def)
  next
    case False
    then have f: "\<lfloor>y\<rfloor> = m - 1" using lo by linarith
    have "1 / 2 < y - of_int (m - 1)" using lo by simp
    then show ?thesis using f by (simp add: roundTiesToEven_def Let_def)
  qed
qed

lemmas rnd = twoTo_def roundTiesToEven_def Let_def

lemma twoTo_add: "twoTo (i + j) = twoTo i * twoTo j"
  by (simp add: twoTo_powr powr_add)

lemma twoTo_52: "twoTo 52 = 2 ^ 52" and twoTo_53: "twoTo 53 = 2 ^ 53"
  by (simp_all add: twoTo_def)

lemma binary64_sqrt:
  assumes lo: "((of_int m - 1 / 2) * twoTo (j - 52))\<^sup>2 < p"
    and hi: "p < ((of_int m + 1 / 2) * twoTo (j - 52))\<^sup>2"
    and m: "2 ^ 52 < m" "m < 2 ^ 53" and j: "- 1022 \<le> j"
  shows "binary64 (sqrt p) = of_int m * twoTo (j - 52)"
proof -
  define u where "u = twoTo (j - 52)"
  have u: "0 < u" unfolding u_def by (rule twoTo_pos)
  have tj: "twoTo j = 2 ^ 52 * u"
    using twoTo_add [of 52 "j - 52"] by (simp add: twoTo_52 u_def)
  have tj1: "twoTo (j + 1) = 2 ^ 53 * u"
    using twoTo_add [of 53 "j - 52"] by (simp add: twoTo_53 u_def add.commute)
  have mi: "2 ^ 52 + 1 \<le> m" "m + 1 \<le> 2 ^ 53" using m by simp_all
  have "real_of_int (2 ^ 52 + 1) \<le> of_int m" "real_of_int (m + 1) \<le> of_int (2 ^ 53)"
    using mi by (simp_all only: of_int_le_iff)
  then have m1: "(2::real) ^ 52 + 1 \<le> of_int m" "of_int m + 1 \<le> (2::real) ^ 53"
    by simp_all
  have m2: "(2::real) ^ 52 \<le> of_int m - 1 / 2" "of_int m + 1 / 2 \<le> (2::real) ^ 53"
    using m1 by linarith+
  have l: "(of_int m - 1 / 2) * u < sqrt p"
    using lo unfolding u_def by (rule real_less_rsqrt)
  have "0 \<le> ((of_int m - 1 / 2) * u)\<^sup>2" by (rule zero_le_power2)
  with lo have p0: "0 \<le> p" unfolding u_def by linarith
  have big: "(0::real) < 2 ^ 52" by simp
  have hpos: "0 \<le> (of_int m + 1 / 2) * u"
    using m2(1) u big by (intro mult_nonneg_nonneg) linarith+
  have h: "sqrt p < (of_int m + 1 / 2) * u"
    using hpos hi unfolding u_def by (intro real_less_lsqrt) 
  have low: "2 ^ 52 * u \<le> (of_int m - 1 / 2) * u"
    using m2(1) u by (intro mult_right_mono) simp_all
  have upp: "(of_int m + 1 / 2) * u \<le> 2 ^ 53 * u"
    using m2(2) u by (intro mult_right_mono) simp_all
  have "0 < (2::real) ^ 52 * u" using u by simp
  with low l have sp: "0 < sqrt p" by linarith
  have b1: "twoTo j \<le> \<bar>sqrt p\<bar>" using low l sp unfolding tj by linarith
  have b2: "\<bar>sqrt p\<bar> < twoTo (j + 1)" using upp h sp unfolding tj1 by linarith
  have "of_int m - 1 / 2 < sqrt p / u" "sqrt p / u < of_int m + 1 / 2"
    using l h u by (simp_all add: pos_less_divide_eq pos_divide_less_eq)
  then have "\<bar>sqrt p / u - of_int m\<bar> < 1 / 2" by linarith
  then have "roundTiesToEven (sqrt p / u) = m" by (rule roundTiesToEven_eqI)
  then show ?thesis using binary64_eq [OF b1 b2 j] by (simp add: u_def)
qed

lemma binary64_zero: "binary64 0 = 0"
  by (simp add: binary64_def roundTiesToEven_def)

section \<open>Properties of the rounded functions\<close>

subsection \<open>The exact form is the rounded form without rounding\<close>

lemma foldl_exact_sum:
  "foldl (\<lambda>result r. result + rating r) s rest = s + sum_list (map rating rest)"
  by (induction rest arbitrary: s) simp_all

lemma meanByFl_exact: "meanByFl (\<lambda>x. x) xs = meanBy xs"
  by (cases xs) (simp_all add: meanByFl_def meanBy_def foldl_exact_sum)

lemma accumulateFl_exact: "accumulateFl (\<lambda>x. x) avg1 avg2 = accumulate avg1 avg2"
  by (intro ext) (simp add: accumulateFl_def accumulate_def power2_eq_square)

lemma calculateSimilarityFl_exact: "calculateSimilarityFl (\<lambda>x. x) a b = calculateSimilarity a b"
  unfolding calculateSimilarityFl_def calculateSimilarity_def meanByFl_exact accumulateFl_exact
  by (rule refl)

lemma addNeighborFl_exact: "addNeighborFl (\<lambda>x. x) m = addNeighbor m"
  by (intro ext) (simp add: addNeighborFl_def addNeighbor_def)

lemma predictRatingFl_exact: "predictRatingFl (\<lambda>x. x) m nbs = predictRating m nbs"
  by (simp add: predictRatingFl_def predictRating_def addNeighborFl_exact)

subsection \<open>Range\<close>

lemmas simFl_eval = calculateSimilarityFl_def meanByFl_def intersectionBy_def accumulateFl_def Let_def

text \<open>
  Claim C4. The value returned by \<^verbatim>\<open>calculateSimilarity\<close> is said to lie between
  \<open>- 1\<close> and \<open>1\<close> for every pair of non-empty vectors, and the comment in the code
  says so too. For user 1 rating the movies 10, 20 and 30 with 5, 3 and 3 and user 2
  rating the movies 10 and 40 with 3 and 2, the numerator is rounded to
  3.333333333333334 and the square root to 3.3333333333333335, and the code returns
  1.0000000000000002, the double next above \<open>1\<close>.
\<close>

theorem similarity_exceeds_one:
  "calculateSimilarityFl binary64
     [\<lparr>movieId = 10, rating = 5\<rparr>, \<lparr>movieId = 20, rating = 3\<rparr>, \<lparr>movieId = 30, rating = 3\<rparr>]
     [\<lparr>movieId = 10, rating = 3\<rparr>, \<lparr>movieId = 40, rating = 2\<rparr>] = 1 + 1 / 2 ^ 52
   \<and> 1 < calculateSimilarityFl binary64
     [\<lparr>movieId = 10, rating = 5\<rparr>, \<lparr>movieId = 20, rating = 3\<rparr>, \<lparr>movieId = 30, rating = 3\<rparr>]
     [\<lparr>movieId = 10, rating = 3\<rparr>, \<lparr>movieId = 40, rating = 2\<rparr>]"
proof -
  have r1: "binary64 8 = 8"
    by (subst binary64_eq [where j = 3]) (simp_all add: rnd)
  have r2: "binary64 11 = 11"
    by (subst binary64_eq [where j = 3]) (simp_all add: rnd)
  have r3: "binary64 (11 / 3) = 8256599316845909 / 2251799813685248"
    by (subst binary64_eq [where j = 1]) (simp_all add: rnd)
  have r4: "binary64 5 = 5"
    by (subst binary64_eq [where j = 2]) (simp_all add: rnd)
  have r5: "binary64 (5 / 2) = 5 / 2"
    by (subst binary64_eq [where j = 1]) (simp_all add: rnd)
  have r6: "binary64 (3002399751580331 / 2251799813685248) = 3002399751580331 / 2251799813685248"
    by (subst binary64_eq [where j = 0]) (simp_all add: rnd)
  have r7: "binary64 (15011998757901655 / 4503599627370496) = 1876499844737707 / 562949953421312"
    by (subst binary64_eq [where j = 1]) (simp_all add: rnd)
  have r8: "binary64 (1876499844737707 / 562949953421312) = 1876499844737707 / 562949953421312"
    by (subst binary64_eq [where j = 1]) (simp_all add: rnd)
  have r9: "binary64 (9014404268289633301131946069561 / 5070602400912917605986812821504) = 4003199668773775 / 2251799813685248"
    by (subst binary64_eq [where j = 0]) (simp_all add: rnd)
  have r10: "binary64 (4003199668773775 / 2251799813685248) = 4003199668773775 / 2251799813685248"
    by (subst binary64_eq [where j = 0]) (simp_all add: rnd)
  have r11: "binary64 (25 / 4) = 25 / 4"
    by (subst binary64_eq [where j = 2]) (simp_all add: rnd)
  have r12: "binary64 (100079991719344375 / 9007199254740992) = 6254999482459023 / 562949953421312"
    by (subst binary64_eq [where j = 3]) (simp_all add: rnd)
  have "binary64 (sqrt (6254999482459023 / 562949953421312)) = of_int 7505999378950827 * twoTo (1 - 52)"
    by (rule binary64_sqrt) (simp_all add: rnd power2_eq_square)
  then have r13: "binary64 (sqrt (6254999482459023 / 562949953421312)) = 7505999378950827 / 2251799813685248"
    by (simp add: rnd)
  have r14: "binary64 (7505999378950828 / 7505999378950827) = 4503599627370497 / 4503599627370496"
    by (subst binary64_eq [where j = 0]) (simp_all add: rnd)
  show ?thesis
    by (simp add: simFl_eval r1 r2 r3 r4 r5 r6 r7 r8 r9 r10 r11 r12 r13 r14)
qed

subsection \<open>What the second vector contributes\<close>

lemma orderB_similarity: "calculateSimilarityFl binary64 orderTarget orderB = 1"
proof -
  have r1: "binary64 (13 / 5) = 5854679515581645 / 2251799813685248"
    by (subst binary64_eq [where j = 1]) (simp_all add: rnd)
  have r2: "binary64 (9 / 5) = 8106479329266893 / 4503599627370496"
    by (subst binary64_eq [where j = 0]) (simp_all add: rnd)
  have r3: "binary64 (23 / 5) = 2589569785738035 / 562949953421312"
    by (subst binary64_eq [where j = 2]) (simp_all add: rnd)
  have r4: "binary64 (7 / 5) = 3152519739159347 / 2251799813685248"
    by (subst binary64_eq [where j = 0]) (simp_all add: rnd)
  have r5: "binary64 (8106479329266893 / 2251799813685248) = 8106479329266893 / 2251799813685248"
    by (subst binary64_eq [where j = 1]) (simp_all add: rnd)
  have r6: "binary64 (8106479329266893 / 4503599627370496) = 8106479329266893 / 4503599627370496"
    by (subst binary64_eq [where j = 0]) (simp_all add: rnd)
  have r7: "binary64 (28823037615171173 / 4503599627370496) = 7205759403792793 / 1125899906842624"
    by (subst binary64_eq [where j = 2]) (simp_all add: rnd)
  have r8: "binary64 (17564038546744933 / 2251799813685248) = 4391009636686233 / 562949953421312"
    by (subst binary64_eq [where j = 2]) (simp_all add: rnd)
  have r9: "binary64 (1463669878895411 / 562949953421312) = 1463669878895411 / 562949953421312"
    by (subst binary64_eq [where j = 1]) (simp_all add: rnd)
  have r10: "binary64 (3602879701896397 / 4503599627370496) = 3602879701896397 / 4503599627370496"
    by (subst binary64_eq [where j = "- 1"]) (simp_all add: rnd)
  have r11: "binary64 (1 / 2251799813685248) = 1 / 2251799813685248"
    by (subst binary64_eq [where j = "- 51"]) (simp_all add: rnd)
  have r12: "binary64 (3602879701896397 / 10141204801825835211973625643008) = 3602879701896397 / 10141204801825835211973625643008"
    by (subst binary64_eq [where j = "- 52"]) (simp_all add: rnd)
  have r13: "binary64 (12980742146337070512478121581609 / 20282409603651670423947251286016) = 1441151880758559 / 2251799813685248"
    by (subst binary64_eq [where j = "- 1"]) (simp_all add: rnd)
  have r14: "binary64 (1441151880758559 / 2251799813685248) = 1441151880758559 / 2251799813685248"
    by (subst binary64_eq [where j = "- 1"]) (simp_all add: rnd)
  have r15: "binary64 (1 / 5070602400912917605986812821504) = 1 / 5070602400912917605986812821504"
    by (subst binary64_eq [where j = "- 102"]) (simp_all add: rnd)
  have r16: "binary64 (1441151880758559 / 11417981541647679048466287755595961091061972992) = 1441151880758559 / 11417981541647679048466287755595961091061972992"
    by (subst binary64_eq [where j = "- 103"]) (simp_all add: rnd)
  have "binary64 (sqrt (1441151880758559 / 11417981541647679048466287755595961091061972992)) = of_int 7205759403792794 * twoTo (- 52 - 52)"
    by (rule binary64_sqrt) (simp_all add: rnd power2_eq_square)
  then have r17: "binary64 (sqrt (1441151880758559 / 11417981541647679048466287755595961091061972992)) = 3602879701896397 / 10141204801825835211973625643008"
    by (simp add: rnd)
  have r18: "binary64 1 = 1"
    by (subst binary64_eq [where j = 0]) (simp_all add: rnd)
  show ?thesis
    by (simp add: orderTarget_def orderB_def simFl_eval r1 r2 r3 r4 r5 r6 r7 r8 r9 r10 r11 r12 r13 r14 r15 r16 r17 r18)
qed

lemma orderB'_similarity: "calculateSimilarityFl binary64 orderTarget orderB' = 0"
proof -
  have s1: "binary64 (13 / 5) = 5854679515581645 / 2251799813685248"
    by (subst binary64_eq [where j = 1]) (simp_all add: rnd)
  have s2: "binary64 (9 / 5) = 8106479329266893 / 4503599627370496"
    by (subst binary64_eq [where j = 0]) (simp_all add: rnd)
  have s3: "binary64 (7 / 5) = 3152519739159347 / 2251799813685248"
    by (subst binary64_eq [where j = 0]) (simp_all add: rnd)
  have s4: "binary64 (23 / 5) = 2589569785738035 / 562949953421312"
    by (subst binary64_eq [where j = 2]) (simp_all add: rnd)
  have s5: "binary64 (8106479329266893 / 2251799813685248) = 8106479329266893 / 2251799813685248"
    by (subst binary64_eq [where j = 1]) (simp_all add: rnd)
  have s6: "binary64 (8106479329266893 / 4503599627370496) = 8106479329266893 / 4503599627370496"
    by (subst binary64_eq [where j = 0]) (simp_all add: rnd)
  have s7: "binary64 (14411518807585587 / 4503599627370496) = 3602879701896397 / 1125899906842624"
    by (subst binary64_eq [where j = 1]) (simp_all add: rnd)
  have s8: "binary64 (8782019273372467 / 1125899906842624) = 8782019273372467 / 1125899906842624"
    by (subst binary64_eq [where j = 2]) (simp_all add: rnd)
  have s9: "binary64 (8782019273372467 / 3377699720527872) = 5854679515581645 / 2251799813685248"
    by (subst binary64_eq [where j = 1]) (simp_all add: rnd)
  have s10: "binary64 (3602879701896397 / 4503599627370496) = 3602879701896397 / 4503599627370496"
    by (subst binary64_eq [where j = "- 1"]) (simp_all add: rnd)
  have s11: "binary64 (12980742146337070512478121581609 / 20282409603651670423947251286016) = 1441151880758559 / 2251799813685248"
    by (subst binary64_eq [where j = "- 1"]) (simp_all add: rnd)
  have s12: "binary64 (1441151880758559 / 2251799813685248) = 1441151880758559 / 2251799813685248"
    by (subst binary64_eq [where j = "- 1"]) (simp_all add: rnd)
  show ?thesis
    by (simp add: orderTarget_def orderB'_def simFl_eval binary64_zero s1 s2 s3 s4 s5 s6 s7 s8 s9 s10 s11 s12)
qed

text \<open>
  Claim C10, as stated: for two second vectors with the same set of movie ids and the same
  mean rating, the similarity to a given vector is the same. \<open>orderB\<close> and \<open>orderB'\<close>
  hold the same ratings in two orders, so their means are equal; but the code adds the
  ratings from left to right, gets 2.5999999999999996 for one order and 2.6 for the
  other, and returns 1 for the first and 0 for the second.
\<close>

theorem similarity_changes_with_rating_order:
  "set (map movieId orderB) = set (map movieId orderB')
   \<and> meanBy orderB = meanBy orderB'
   \<and> calculateSimilarityFl binary64 orderTarget orderB = 1
   \<and> calculateSimilarityFl binary64 orderTarget orderB' = 0"
proof -
  have "set (map movieId orderB) = set (map movieId orderB')"
    by (simp add: orderB_def orderB'_def)
  moreover have "meanBy orderB = meanBy orderB'"
    by (simp add: meanBy_def orderB_def orderB'_def)
  ultimately show ?thesis by (simp add: orderB_similarity orderB'_similarity)
qed

text \<open>
  Claim C10, amended. The similarity depends on the second vector only through its set of
  movie ids and the mean that \<^verbatim>\<open>_.meanBy\<close> computes for it (the ratings added from
  left to right, each sum rounded, and divided by the length): two second vectors that
  agree on both have the same similarity to every vector, whatever the rounding is.
\<close>

theorem similarity_uses_ids_and_computed_mean:
  assumes "set (map movieId b) = set (map movieId b')" and "meanByFl fl b = meanByFl fl b'"
  shows "calculateSimilarityFl fl a b = calculateSimilarityFl fl a b'"
proof -
  have common: "intersectionBy a b = intersectionBy a b'"
    unfolding intersectionBy_def using assms(1) by (rule baseIntersection_cong_set)
  show ?thesis unfolding calculateSimilarityFl_def common assms(2) by (rule refl)
qed

theorem similarity_uses_ids_and_computed_mean_witness:
  "set (map movieId [\<lparr>movieId = 10, rating = 3\<rparr>, \<lparr>movieId = 20, rating = 5\<rparr>]) =
   set (map movieId [\<lparr>movieId = 20, rating = 4\<rparr>, \<lparr>movieId = 10, rating = 4\<rparr>])
   \<and> meanByFl binary64 [\<lparr>movieId = 10, rating = 3\<rparr>, \<lparr>movieId = 20, rating = 5\<rparr>] = Some 4
   \<and> meanByFl binary64 [\<lparr>movieId = 20, rating = 4\<rparr>, \<lparr>movieId = 10, rating = 4\<rparr>] = Some 4
   \<and> calculateSimilarityFl binary64 [\<lparr>movieId = 10, rating = 5\<rparr>, \<lparr>movieId = 20, rating = 3\<rparr>]
        [\<lparr>movieId = 10, rating = 3\<rparr>, \<lparr>movieId = 20, rating = 5\<rparr>] =
     calculateSimilarityFl binary64 [\<lparr>movieId = 10, rating = 5\<rparr>, \<lparr>movieId = 20, rating = 3\<rparr>]
        [\<lparr>movieId = 20, rating = 4\<rparr>, \<lparr>movieId = 10, rating = 4\<rparr>]"
proof -
  have w1: "binary64 8 = 8"
    by (subst binary64_eq [where j = 3]) (simp_all add: rnd)
  have w2: "binary64 4 = 4"
    by (subst binary64_eq [where j = 2]) (simp_all add: rnd)
  have ids: "set (map movieId [\<lparr>movieId = 10, rating = 3\<rparr>, \<lparr>movieId = 20, rating = 5\<rparr>]) =
    set (map movieId [\<lparr>movieId = 20, rating = 4\<rparr>, \<lparr>movieId = 10, rating = 4\<rparr>])"
    by auto
  have m1: "meanByFl binary64 [\<lparr>movieId = 10, rating = 3\<rparr>, \<lparr>movieId = 20, rating = 5\<rparr>] = Some 4"
    and m2: "meanByFl binary64 [\<lparr>movieId = 20, rating = 4\<rparr>, \<lparr>movieId = 10, rating = 4\<rparr>] = Some 4"
    by (simp_all add: meanByFl_def w1 w2)
  have means: "meanByFl binary64 [\<lparr>movieId = 10, rating = 3\<rparr>, \<lparr>movieId = 20, rating = 5\<rparr>] =
     meanByFl binary64 [\<lparr>movieId = 20, rating = 4\<rparr>, \<lparr>movieId = 10, rating = 4\<rparr>]"
    by (simp only: m1 m2)
  show ?thesis
    using ids m1 m2 similarity_uses_ids_and_computed_mean [OF ids means] by blast
qed

subsection \<open>Prediction\<close>

lemma fold_addNeighborFl:
  "fold (addNeighborFl fl m) nbs acc =
     \<lparr> weightedSum = foldl (\<lambda>acc (r, s). fl (acc + fl (r * s))) (weightedSum acc) (contributions m nbs),
       similaritySum = foldl (\<lambda>acc (r, s). fl (acc + s)) (similaritySum acc) (contributions m nbs) \<rparr>"
proof (induction nbs arbitrary: acc)
  case Nil
  show ?case by (simp add: contributions_def)
next
  case (Cons nb nbs)
  show ?case
  proof (cases "find (\<lambda>r. movieId r = m) (ratings nb)")
    case None
    from find_movie_None [OF None] have c: "contributions m (nb # nbs) = contributions m nbs"
      by (simp add: contributions_def)
    have "addNeighborFl fl m nb acc = acc" using None by (simp add: addNeighborFl_def)
    then show ?thesis by (simp add: Cons.IH c)
  next
    case (Some r)
    from find_movie_Some [OF Some]
    have c: "contributions m (nb # nbs) = (rating r, similarity nb) # contributions m nbs"
      by (simp add: contributions_def)
    have "addNeighborFl fl m nb acc =
        \<lparr> weightedSum = fl (weightedSum acc + fl (rating r * similarity nb)),
          similaritySum = fl (similaritySum acc + similarity nb) \<rparr>"
      using Some by (simp add: addNeighborFl_def)
    then show ?thesis by (simp add: Cons.IH c)
  qed
qed

lemma predictRatingFl_eq:
  "predictRatingFl fl m nbs =
     (if 0 < similaritySumFl fl m nbs
      then FixedStr (toFixed1 (fl (weightedSumFl fl m nbs / similaritySumFl fl m nbs)))
      else Num 1)"
  by (simp add: predictRatingFl_def fold_addNeighborFl weightedSumFl_def similaritySumFl_def)

lemma replicate_9: "replicate 9 x = [x, x, x, x, x, x, x, x, x]"
  by (simp add: numeral_eq_Suc)

lemma tenNeighbors_contributions:
  "contributions 30 tenNeighbors = replicate 9 (3 / 2, 1) @ [(1, 1)]"
  by (simp add: tenNeighbors_def contributions_def ratingOf_def replicate_9)

lemma tenNeighbors_sums:
  "weightedSumFl binary64 30 tenNeighbors = 29 / 2"
  "similaritySumFl binary64 30 tenNeighbors = 10"
  "binary64 (29 / 20) = 6530219459687219 / 4503599627370496"
proof -
  have v1: "binary64 (3 / 2) = 3 / 2"
    by (subst binary64_eq [where j = 0]) (simp_all add: rnd)
  have v2: "binary64 1 = 1"
    by (subst binary64_eq [where j = 0]) (simp_all add: rnd)
  have v3: "binary64 3 = 3"
    by (subst binary64_eq [where j = 1]) (simp_all add: rnd)
  have v4: "binary64 2 = 2"
    by (subst binary64_eq [where j = 1]) (simp_all add: rnd)
  have v5: "binary64 (9 / 2) = 9 / 2"
    by (subst binary64_eq [where j = 2]) (simp_all add: rnd)
  have v6: "binary64 6 = 6"
    by (subst binary64_eq [where j = 2]) (simp_all add: rnd)
  have v7: "binary64 4 = 4"
    by (subst binary64_eq [where j = 2]) (simp_all add: rnd)
  have v8: "binary64 (15 / 2) = 15 / 2"
    by (subst binary64_eq [where j = 2]) (simp_all add: rnd)
  have v9: "binary64 5 = 5"
    by (subst binary64_eq [where j = 2]) (simp_all add: rnd)
  have v10: "binary64 9 = 9"
    by (subst binary64_eq [where j = 3]) (simp_all add: rnd)
  have v11: "binary64 (21 / 2) = 21 / 2"
    by (subst binary64_eq [where j = 3]) (simp_all add: rnd)
  have v12: "binary64 7 = 7"
    by (subst binary64_eq [where j = 2]) (simp_all add: rnd)
  have v13: "binary64 12 = 12"
    by (subst binary64_eq [where j = 3]) (simp_all add: rnd)
  have v14: "binary64 8 = 8"
    by (subst binary64_eq [where j = 3]) (simp_all add: rnd)
  have v15: "binary64 (27 / 2) = 27 / 2"
    by (subst binary64_eq [where j = 3]) (simp_all add: rnd)
  have v16: "binary64 (29 / 2) = 29 / 2"
    by (subst binary64_eq [where j = 3]) (simp_all add: rnd)
  have v17: "binary64 10 = 10"
    by (subst binary64_eq [where j = 3]) (simp_all add: rnd)
  have v18: "binary64 (29 / 20) = 6530219459687219 / 4503599627370496"
    by (subst binary64_eq [where j = 0]) (simp_all add: rnd)
  show "weightedSumFl binary64 30 tenNeighbors = 29 / 2"
    by (simp add: weightedSumFl_def tenNeighbors_contributions replicate_9 v1 v2 v3 v4 v5 v6 v7 v8 v9 v10 v11 v12 v13 v14 v15 v16 v17 v18)
  show "similaritySumFl binary64 30 tenNeighbors = 10"
    by (simp add: similaritySumFl_def tenNeighbors_contributions replicate_9 v1 v2 v3 v4 v5 v6 v7 v8 v9 v10 v11 v12 v13 v14 v15 v16 v17 v18)
  show "binary64 (29 / 20) = 6530219459687219 / 4503599627370496"
    by (rule v18)
qed

text \<open>
  Claim C5. For every item and every sequence of neighbour records,
  \<^verbatim>\<open>predictRating\<close> returns the quotient of \<^verbatim>\<open>weightedSum\<close> by
  \<^verbatim>\<open>similaritySum\<close>, rounded to one decimal place, when \<^verbatim>\<open>similaritySum\<close> is
  strictly positive, and the fallback \<open>1\<close> otherwise, in particular when no neighbour
  rated the item. The two sums are the sums over the neighbours who rated the item as the
  code accumulates them, and the quotient is the one the code computes; the statement
  holds whatever the rounding of the operations is. For nine ratings 1.5 and one rating
  1 at similarity \<open>1\<close> the computed quotient is the double just below 1.45, and the
  result is the string 1.4.
\<close>

theorem predictRating_rounds_computed_quotient:
  "(0 < similaritySumFl fl m nbs \<longrightarrow>
      predictRatingFl fl m nbs =
        FixedStr (toFixed1 (fl (weightedSumFl fl m nbs / similaritySumFl fl m nbs)))
      \<and> roundedToOneDecimal (fl (weightedSumFl fl m nbs / similaritySumFl fl m nbs))
            (toNumber (predictRatingFl fl m nbs)))
   \<and> (similaritySumFl fl m nbs \<le> 0 \<longrightarrow> predictRatingFl fl m nbs = Num 1)
   \<and> (filter (\<lambda>nb. m \<in> movieId ` set (ratings nb)) nbs = [] \<longrightarrow>
        predictRatingFl fl m nbs = Num 1)"
proof (intro conjI impI)
  assume pos: "0 < similaritySumFl fl m nbs"
  then show eq: "predictRatingFl fl m nbs =
      FixedStr (toFixed1 (fl (weightedSumFl fl m nbs / similaritySumFl fl m nbs)))"
    by (simp add: predictRatingFl_eq)
  show "roundedToOneDecimal (fl (weightedSumFl fl m nbs / similaritySumFl fl m nbs))
            (toNumber (predictRatingFl fl m nbs))"
    unfolding eq toNumber.simps by (rule toFixed1_rounds)
next
  assume "similaritySumFl fl m nbs \<le> 0"
  then show "predictRatingFl fl m nbs = Num 1" by (simp add: predictRatingFl_eq)
next
  assume "filter (\<lambda>nb. m \<in> movieId ` set (ratings nb)) nbs = []"
  then have "contributions m nbs = []" by (simp add: contributions_unrated)
  then have "similaritySumFl fl m nbs = 0" by (simp add: similaritySumFl_def)
  then show "predictRatingFl fl m nbs = Num 1" by (simp add: predictRatingFl_eq)
qed

theorem predictRating_rounds_computed_quotient_witness:
  "0 < similaritySumFl binary64 30 tenNeighbors
   \<and> binary64 (weightedSumFl binary64 30 tenNeighbors / similaritySumFl binary64 30 tenNeighbors)
       = 6530219459687219 / 4503599627370496
   \<and> predictRatingFl binary64 30 tenNeighbors = FixedStr 14
   \<and> roundedToOneDecimal (6530219459687219 / 4503599627370496)
         (toNumber (predictRatingFl binary64 30 tenNeighbors))
   \<and> filter (\<lambda>nb. 40 \<in> movieId ` set (ratings nb)) tenNeighbors = []
   \<and> predictRatingFl binary64 40 tenNeighbors = Num 1"
proof -
  have pos: "0 < similaritySumFl binary64 30 tenNeighbors" by (simp add: tenNeighbors_sums)
  have q: "binary64 (weightedSumFl binary64 30 tenNeighbors / similaritySumFl binary64 30 tenNeighbors)
       = 6530219459687219 / 4503599627370496"
    by (simp add: tenNeighbors_sums)
  have fx: "toFixed1 (6530219459687219 / 4503599627370496) = 14" by (simp add: toFixed1_def)
  have unrated: "filter (\<lambda>nb. 40 \<in> movieId ` set (ratings nb)) tenNeighbors = []"
    by (simp add: tenNeighbors_def replicate_9)
  from predictRating_rounds_computed_quotient [of binary64 30 tenNeighbors] pos
  have "predictRatingFl binary64 30 tenNeighbors =
      FixedStr (toFixed1 (6530219459687219 / 4503599627370496))"
    "roundedToOneDecimal (6530219459687219 / 4503599627370496)
         (toNumber (predictRatingFl binary64 30 tenNeighbors))"
    unfolding q by blast+
  moreover from predictRating_rounds_computed_quotient [of binary64 40 tenNeighbors] unrated
  have "predictRatingFl binary64 40 tenNeighbors = Num 1" by blast
  ultimately show ?thesis using pos q unrated fx by simp
qed

end
